theory Spec2Isabelle
  imports Main
begin

section \<open>Python values, exceptions and string operations\<close>

text \<open>
  The proxy of \<^verbatim>\<open>src/sxm.py\<close> is embedded function by function. A Python call that
  may raise returns a sum: \<open>Inl e\<close> is the exception \<open>e\<close> leaving the call, \<open>Inr v\<close> the
  value returned. JSON documents keep Python's dynamic typing, since the code subscripts
  whatever the upstream sent. Numbers are integers here; a JSON object is the list of its
  items (keys distinct, as in the parsed \<^verbatim>\<open>dict\<close>). Strings are lists of 8-bit characters;
  \<^verbatim>\<open>lower\<close> and \<^verbatim>\<open>rstrip\<close> act on ASCII.
\<close>

datatype exn =
  KeyError | IndexError | TypeError | ValueError | AttributeError
  | MissingSchema | RequestError | OtherError

datatype json =
  JNull | JBool bool | JNum int | JStr string | JArr "json list"
  | JObj "(string \<times> json) list"

datatype key = Key string | Idx int

text \<open>\<^verbatim>\<open>not data\<close> is \<open>\<not> truthy data\<close>.\<close>

fun truthy :: "json \<Rightarrow> bool" where
  "truthy JNull = False"
| "truthy (JBool b) = b"
| "truthy (JNum n) = (n \<noteq> 0)"
| "truthy (JStr s) = (s \<noteq> [])"
| "truthy (JArr xs) = (xs \<noteq> [])"
| "truthy (JObj kv) = (kv \<noteq> [])"

text \<open>\<^verbatim>\<open>xs[i]\<close> on a list of length \<open>n\<close>: \<open>i\<close> from \<open>- n\<close> up to \<open>n - 1\<close>, else \<^verbatim>\<open>IndexError\<close>.\<close>

definition py_index :: "'a list \<Rightarrow> int \<Rightarrow> exn + 'a" where
  "py_index xs i =
     (if 0 \<le> i \<and> i < int (length xs) then Inr (xs ! nat i)
      else if i < 0 \<and> - int (length xs) \<le> i then Inr (xs ! nat (int (length xs) + i))
      else Inl IndexError)"

text \<open>\<^verbatim>\<open>v[k]\<close> for a string key or an integer index, on any JSON value.\<close>

fun subscript :: "json \<Rightarrow> key \<Rightarrow> exn + json" where
  "subscript (JObj kv) (Key k) = (case map_of kv k of None \<Rightarrow> Inl KeyError | Some v \<Rightarrow> Inr v)"
| "subscript (JObj kv) (Idx i) = Inl KeyError"
| "subscript (JArr xs) (Idx i) = py_index xs i"
| "subscript (JArr xs) (Key k) = Inl TypeError"
| "subscript (JStr s) (Idx i) = (case py_index s i of Inl e \<Rightarrow> Inl e | Inr c \<Rightarrow> Inr (JStr [c]))"
| "subscript (JStr s) (Key k) = Inl TypeError"
| "subscript JNull k = Inl TypeError"
| "subscript (JBool b) k = Inl TypeError"
| "subscript (JNum n) k = Inl TypeError"

text \<open>A chain of subscripts \<^verbatim>\<open>v[k1][k2]...\<close>, stopping at the first exception.\<close>

fun lookup_path :: "json \<Rightarrow> key list \<Rightarrow> exn + json" where
  "lookup_path j [] = Inr j"
| "lookup_path j (k # ks) = (case subscript j k of Inl e \<Rightarrow> Inl e | Inr v \<Rightarrow> lookup_path v ks)"

text \<open>\<^verbatim>\<open>try: ... except (e1, e2): return d\<close> around a computation.\<close>

definition catch :: "exn list \<Rightarrow> exn + 'a \<Rightarrow> 'a \<Rightarrow> exn + 'a" where
  "catch es r d = (case r of Inl e \<Rightarrow> (if e \<in> set es then Inr d else Inl e) | Inr v \<Rightarrow> Inr v)"

text \<open>\<^verbatim>\<open>v == n\<close> for an integer literal (Python's \<^verbatim>\<open>True == 1\<close>), \<^verbatim>\<open>v == s\<close> for a string.\<close>

fun eq_int :: "json \<Rightarrow> int \<Rightarrow> bool" where
  "eq_int (JNum m) n = (m = n)"
| "eq_int (JBool b) n = ((if b then 1 else 0) = n)"
| "eq_int _ n = False"

fun eq_str :: "json \<Rightarrow> string \<Rightarrow> bool" where
  "eq_str (JStr t) s = (t = s)"
| "eq_str _ s = False"

text \<open>\<^verbatim>\<open>s.split(c, n)\<close>, \<^verbatim>\<open>s.split(c)\<close> and \<^verbatim>\<open>s.rsplit(c, 1)\<close> for a one-character separator.\<close>

fun split_max :: "char \<Rightarrow> nat \<Rightarrow> string \<Rightarrow> string list" where
  "split_max c 0 s = [s]"
| "split_max c (Suc n) s =
     (if c \<in> set s
      then takeWhile (\<lambda>x. x \<noteq> c) s # split_max c n (tl (dropWhile (\<lambda>x. x \<noteq> c) s))
      else [s])"

definition split_all :: "char \<Rightarrow> string \<Rightarrow> string list" where
  "split_all c s = split_max c (length s) s"

definition rsplit1 :: "char \<Rightarrow> string \<Rightarrow> string list" where
  "rsplit1 c s =
     (if c \<in> set s
      then [rev (tl (dropWhile (\<lambda>x. x \<noteq> c) (rev s))), rev (takeWhile (\<lambda>x. x \<noteq> c) (rev s))]
      else [s])"

fun join :: "string \<Rightarrow> string list \<Rightarrow> string" where
  "join sep [] = []"
| "join sep [x] = x"
| "join sep (x # y # ys) = x @ sep @ join sep (y # ys)"

definition isspace :: "char \<Rightarrow> bool" where
  "isspace c = (c \<in> set [CHR '' '', CHR 0x09, CHR 0x0A, CHR 0x0B, CHR 0x0C, CHR 0x0D,
                            CHR 0x1C, CHR 0x1D, CHR 0x1E, CHR 0x1F])"

definition rstrip :: "string \<Rightarrow> string" where
  "rstrip s = rev (dropWhile isspace (rev s))"

definition endswith :: "string \<Rightarrow> string \<Rightarrow> bool" where
  "endswith s suf = (length suf \<le> length s \<and> drop (length s - length suf) s = suf)"

definition lower_char :: "char \<Rightarrow> char" where
  "lower_char c =
     (let n = (of_char c :: nat) in if 65 \<le> n \<and> n \<le> 90 then char_of (n + 32) else c)"

definition lower :: "string \<Rightarrow> string" where
  "lower s = map lower_char s"

text \<open>\<^verbatim>\<open>s.replace(old, new)\<close> for a non-empty \<open>old\<close> (its one use has a constant one).\<close>

fun replace :: "string \<Rightarrow> string \<Rightarrow> string \<Rightarrow> string" where
  "replace old new [] = []"
| "replace old new (x # xs) =
     (if old \<noteq> [] \<and> take (length old) (x # xs) = old
      then new @ replace old new (drop (length old) (x # xs))
      else x # replace old new xs)"

section \<open>The session: cookie jar, playlist cache, channel catalog\<close>

text \<open>
  A request is what \<^verbatim>\<open>requests.Session\<close> sends: the method's URL with its query
  parameters, or the URL with the posted document. The \<^verbatim>\<open>time\<close> and \<^verbatim>\<open>timestamp\<close>
  parameters of \<^verbatim>\<open>tune/now-playing-live\<close> are left out: the upstream below sees the whole
  history of requests, so it can answer two equal requests differently.
\<close>

datatype request =
  HttpGet string "(string \<times> json) list"
  | HttpPost string json

record response =
  status_code :: int
  body :: string
  parsed :: "json option"
  set_cookies :: "(string \<times> string option) list"

text \<open>
  \<open>body\<close> is \<^verbatim>\<open>res.text\<close> (and \<^verbatim>\<open>res.content\<close>); \<open>parsed\<close> is what \<^verbatim>\<open>res.json()\<close> gives,
  \<open>None\<close> when it raises \<^verbatim>\<open>ValueError\<close>; \<open>set_cookies\<close> are the cookies the response sets
  (\<open>Some v\<close>) or expires (\<open>None\<close>), in order.

  The environment: the upstream answers a request given all requests sent before it;
  \<^verbatim>\<open>json.loads\<close> and \<^verbatim>\<open>urllib.parse.unquote\<close> are the library's; \<open>aio_send_data\<close> is the
  Adafruit IO publisher, \<open>Some e\<close> when it raises \<open>e\<close>.
\<close>

record env =
  upstream :: "request list \<Rightarrow> request \<Rightarrow> response"
  json_loads :: "string \<Rightarrow> json option"
  unquote :: "string \<Rightarrow> string"
  aio_send_data :: "request list \<Rightarrow> json \<Rightarrow> exn option"

text \<open>
  The \<^verbatim>\<open>SiriusXM\<close> object. \<open>playlists\<close> may hold \<open>None\<close> for a channel
  (\<^verbatim>\<open>get_playlist_variant_url\<close> returned \<^verbatim>\<open>None\<close>); \<open>trace\<close> records every request sent
  upstream, oldest first.
\<close>

record sxm =
  username :: string
  password :: string
  cookies :: "string \<rightharpoonup> string"
  playlists :: "json \<rightharpoonup> string option"
  channels :: json
  trace :: "request list"

definition is_logged_in :: "sxm \<Rightarrow> bool" where
  "is_logged_in s = (cookies s ''SXMAUTHNEW'' \<noteq> None)"

definition is_session_authenticated :: "sxm \<Rightarrow> bool" where
  "is_session_authenticated s = (cookies s ''AWSALB'' \<noteq> None \<and> cookies s ''JSESSIONID'' \<noteq> None)"

subsection \<open>Cookie accessors\<close>

definition cookie_item :: "sxm \<Rightarrow> string \<Rightarrow> exn + string" where
  "cookie_item s name = (case cookies s name of None \<Rightarrow> Inl KeyError | Some v \<Rightarrow> Inr v)"

definition get_sxmak_token :: "sxm \<Rightarrow> exn + string option" where
  "get_sxmak_token s =
     catch [KeyError, IndexError]
       (case cookie_item s ''SXMAKTOKEN'' of Inl e \<Rightarrow> Inl e
        | Inr v \<Rightarrow>
          (case py_index (split_max CHR ''='' 1 v) 1 of Inl e \<Rightarrow> Inl e
           | Inr r \<Rightarrow>
             (case py_index (split_max CHR '','' 1 r) 0 of Inl e \<Rightarrow> Inl e
              | Inr t \<Rightarrow> Inr (Some t))))
       None"

text \<open>\<^verbatim>\<open>get_gup_id\<close> returns any JSON value; Python's \<^verbatim>\<open>None\<close> is \<open>JNull\<close>.\<close>

definition get_gup_id :: "env \<Rightarrow> sxm \<Rightarrow> exn + json" where
  "get_gup_id ev s =
     catch [KeyError, ValueError]
       (case cookie_item s ''SXMDATA'' of Inl e \<Rightarrow> Inl e
        | Inr v \<Rightarrow>
          (case json_loads ev (unquote ev v) of None \<Rightarrow> Inl ValueError
           | Some d \<Rightarrow> subscript d (Key ''gupId'')))
       JNull"

subsection \<open>Playlist rewriting\<close>

text \<open>The tail of \<^verbatim>\<open>get_playlist\<close> under \<^verbatim>\<open># add base path to segments\<close>.\<close>

definition add_base_path :: "string \<Rightarrow> string \<Rightarrow> exn + string" where
  "add_base_path url txt =
     (case py_index (rsplit1 CHR ''/'' url) 0 of Inl e \<Rightarrow> Inl e
      | Inr base_url \<Rightarrow>
        (case py_index (split_max CHR ''/'' 1 (drop 8 base_url)) 1 of Inl e \<Rightarrow> Inl e
         | Inr base_path \<Rightarrow>
           Inr (join [CHR 0x0A]
                  (map (\<lambda>l. if endswith (rstrip l) ''.aac'' then base_path @ ''/'' @ l else l)
                     (split_all CHR 0x0A txt)))))"

section \<open>Requests, login and resume\<close>

definition REST_FORMAT :: "string \<Rightarrow> string" where
  "REST_FORMAT method = ''https://player.siriusxm.com/rest/v2/experience/modules/'' @ method"

definition LIVE_PRIMARY_HLS :: string where
  "LIVE_PRIMARY_HLS = ''https://siriusxm-priprodlive.akamaized.net''"

definition init :: "string \<Rightarrow> string \<Rightarrow> sxm" where
  "init u p = \<lparr>username = u, password = p, cookies = Map.empty, playlists = Map.empty,
               channels = JNull, trace = []\<rparr>"

definition apply_cookies :: "(string \<times> string option) list \<Rightarrow> (string \<rightharpoonup> string) \<Rightarrow> (string \<rightharpoonup> string)" where
  "apply_cookies cs jar = fold (\<lambda>c m. m(fst c := snd c)) cs jar"

text \<open>One exchange with the upstream: the request joins the trace, the response's cookies the jar.\<close>

definition send :: "env \<Rightarrow> request \<Rightarrow> sxm \<Rightarrow> response \<times> sxm" where
  "send ev rq s =
     (let r = upstream ev (trace s) rq
      in (r, s\<lparr>cookies := apply_cookies (set_cookies r) (cookies s), trace := trace s @ [rq]\<rparr>))"

text \<open>
  What \<^verbatim>\<open>get\<close> and \<^verbatim>\<open>post\<close> return for a response: \<^verbatim>\<open>None\<close> (here \<open>JNull\<close>) unless the
  status is 200 and the body parses.
\<close>

definition decode :: "response \<Rightarrow> json" where
  "decode r =
     (if status_code r \<noteq> 200 then JNull
      else (case parsed r of None \<Rightarrow> JNull | Some j \<Rightarrow> j))"

text \<open>\<^verbatim>\<open>post(method, postdata, authenticate=False)\<close>, as \<^verbatim>\<open>login\<close> and \<^verbatim>\<open>authenticate\<close> call it.\<close>

definition post_unauth :: "env \<Rightarrow> string \<Rightarrow> json \<Rightarrow> sxm \<Rightarrow> json \<times> sxm" where
  "post_unauth ev method postdata s =
     (case send ev (HttpPost (REST_FORMAT method) postdata) s of (r, s1) \<Rightarrow> (decode r, s1))"

definition device_info :: "(string \<times> json) list" where
  "device_info =
     [(''osVersion'', JStr ''Mac''), (''platform'', JStr ''Web''),
      (''sxmAppVersion'', JStr ''3.1802.10011.0''), (''browser'', JStr ''Safari''),
      (''browserVersion'', JStr ''11.0.3''), (''appRegion'', JStr ''US''),
      (''deviceModel'', JStr ''K2WebClient''), (''clientDeviceId'', JStr ''null''),
      (''player'', JStr ''html5''), (''clientDeviceType'', JStr ''web'')]"

definition module_list :: "(string \<times> json) list \<Rightarrow> json" where
  "module_list m = JObj [(''moduleList'', JObj [(''modules'', JArr [JObj m])])]"

definition login_postdata :: "string \<Rightarrow> string \<Rightarrow> json" where
  "login_postdata u p =
     module_list
       [(''moduleRequest'',
         JObj [(''resultTemplate'', JStr ''web''), (''deviceInfo'', JObj device_info),
               (''standardAuth'', JObj [(''username'', JStr u), (''password'', JStr p)])])]"

definition resume_postdata :: json where
  "resume_postdata =
     module_list
       [(''moduleRequest'',
         JObj [(''resultTemplate'', JStr ''web''), (''deviceInfo'', JObj device_info)])]"

definition channels_postdata :: json where
  "channels_postdata =
     module_list
       [(''moduleArea'', JStr ''Discovery''), (''moduleType'', JStr ''ChannelListing''),
        (''moduleRequest'',
         JObj [(''consumeRequests'', JArr []), (''resultTemplate'', JStr ''responsive''),
               (''alerts'', JArr []), (''profileInfos'', JArr [])])]"

text \<open>\<^verbatim>\<open>data['ModuleListResponse']['status'] == 1\<close>.\<close>

definition status_is_1 :: "json \<Rightarrow> exn + bool" where
  "status_is_1 data =
     (case lookup_path data [Key ''ModuleListResponse'', Key ''status''] of
        Inl e \<Rightarrow> Inl e
      | Inr st \<Rightarrow> Inr (eq_int st 1))"

definition login :: "env \<Rightarrow> sxm \<Rightarrow> (exn + bool) \<times> sxm" where
  "login ev s =
     (case post_unauth ev ''modify/authentication'' (login_postdata (username s) (password s)) s of
        (data, s1) \<Rightarrow>
          if \<not> truthy data then (Inr False, s1)
          else (catch [KeyError]
                  (case status_is_1 data of Inl e \<Rightarrow> Inl e
                   | Inr b \<Rightarrow> Inr (b \<and> is_logged_in s1))
                  False, s1))"

definition authenticate :: "env \<Rightarrow> sxm \<Rightarrow> (exn + bool) \<times> sxm" where
  "authenticate ev s =
     (case (if is_logged_in s then (Inr True, s) else login ev s) of
        (Inl e, s1) \<Rightarrow> (Inl e, s1)
      | (Inr ok, s1) \<Rightarrow>
          if \<not> ok then (Inr False, s1)
          else
            (case post_unauth ev ''resume?OAtrial=false'' resume_postdata s1 of
               (data, s2) \<Rightarrow>
                 if \<not> truthy data then (Inr False, s2)
                 else (catch [KeyError]
                         (case status_is_1 data of Inl e \<Rightarrow> Inl e
                          | Inr b \<Rightarrow> Inr (b \<and> is_session_authenticated s2))
                         False, s2)))"

text \<open>
  The guard at the head of \<^verbatim>\<open>get\<close> and \<^verbatim>\<open>post\<close>:
  \<^verbatim>\<open>authenticate and not self.is_session_authenticated() and not self.authenticate()\<close>;
  \<open>Inr True\<close> when the request goes ahead.
\<close>

definition ensure :: "env \<Rightarrow> bool \<Rightarrow> sxm \<Rightarrow> (exn + bool) \<times> sxm" where
  "ensure ev auth s =
     (if auth \<and> \<not> is_session_authenticated s then authenticate ev s else (Inr True, s))"

definition post :: "env \<Rightarrow> string \<Rightarrow> json \<Rightarrow> bool \<Rightarrow> sxm \<Rightarrow> (exn + json) \<times> sxm" where
  "post ev method postdata auth s =
     (case ensure ev auth s of
        (Inl e, s1) \<Rightarrow> (Inl e, s1)
      | (Inr ok, s1) \<Rightarrow>
          if \<not> ok then (Inr JNull, s1)
          else (case post_unauth ev method postdata s1 of (d, s2) \<Rightarrow> (Inr d, s2)))"

definition get :: "env \<Rightarrow> string \<Rightarrow> (string \<times> json) list \<Rightarrow> bool \<Rightarrow> sxm \<Rightarrow> (exn + json) \<times> sxm" where
  "get ev method params auth s =
     (case ensure ev auth s of
        (Inl e, s1) \<Rightarrow> (Inl e, s1)
      | (Inr ok, s1) \<Rightarrow>
          if \<not> ok then (Inr JNull, s1)
          else (case send ev (HttpGet (REST_FORMAT method) params) s1 of
                  (r, s2) \<Rightarrow> (Inr (decode r), s2)))"


section \<open>Now-playing lookup and playlist resolution\<close>

definition np_params :: "json \<Rightarrow> json \<Rightarrow> (string \<times> json) list" where
  "np_params guid channel_id =
     [(''assetGUID'', guid), (''ccRequestType'', JStr ''AUDIO_VIDEO''),
      (''channelId'', channel_id), (''hls_output_mode'', JStr ''custom''),
      (''marker_mode'', JStr ''all_separate_cue_points''), (''result-template'', JStr ''web'')]"

definition live_channel_data :: "key list" where
  "live_channel_data =
     [Key ''ModuleListResponse'', Key ''moduleList'', Key ''modules'', Idx 0,
      Key ''moduleResponse'', Key ''liveChannelData'']"

definition last_cut :: "key list" where
  "last_cut = [Key ''markerLists'', Idx 3, Key ''markers'', Idx (- 1), Key ''cut'']"

text \<open>
  The part of \<^verbatim>\<open>get_song_info\<close> under \<^verbatim>\<open># get song info\<close> and \<^verbatim>\<open># post to Adafruit_IO\<close>:
  the subscripts before the \<^verbatim>\<open>try\<close> are unguarded; inside the \<^verbatim>\<open>try\<close> the same subscripts
  are evaluated again (and succeed again), then the publisher is called, and only its
  \<^verbatim>\<open>RequestError\<close> is caught. \<open>Some e\<close> is the exception that leaves it.
\<close>

definition publish_song :: "env \<Rightarrow> request list \<Rightarrow> json \<Rightarrow> exn option" where
  "publish_song ev tr data =
     (case lookup_path data live_channel_data of
        Inl e \<Rightarrow> Some e
      | Inr musicdata \<Rightarrow>
     (case lookup_path musicdata
             [Key ''markerLists'', Idx 0, Key ''markers'', Idx 0, Key ''episode'',
              Key ''longTitle''] of
        Inl e \<Rightarrow> Some e
      | Inr station \<Rightarrow>
     (case lookup_path musicdata (last_cut @ [Key ''title'']) of
        Inl e \<Rightarrow> Some e
      | Inr title \<Rightarrow>
     (case lookup_path musicdata (last_cut @ [Key ''artists'', Idx 0, Key ''name'']) of
        Inl e \<Rightarrow> Some e
      | Inr artist \<Rightarrow>
     (case aio_send_data ev tr
             (JObj [(''title'', title), (''artist'', artist), (''station'', station),
                    (''playing'', JBool True)]) of
        Some e \<Rightarrow> if e = RequestError then None else Some e
      | None \<Rightarrow> None)))))"

definition get_song_info :: "env \<Rightarrow> json \<Rightarrow> json \<Rightarrow> bool \<Rightarrow> sxm \<Rightarrow> (exn + json) \<times> sxm" where
  "get_song_info ev guid channel_id full_data s =
     (case get ev ''tune/now-playing-live'' (np_params guid channel_id) True s of
        (Inl e, s1) \<Rightarrow> (Inl e, s1)
      | (Inr data, s1) \<Rightarrow>
          if \<not> truthy data then (Inr JNull, s1)
          else
            (case publish_song ev (trace s1) data of
               Some e \<Rightarrow> (Inl e, s1)
             | None \<Rightarrow> (Inr (if full_data then data else JNull), s1)))"

text \<open>The \<^verbatim>\<open>{token, consumer, gupId}\<close> parameters, read from the jar at the time of the call.\<close>

definition token_params :: "env \<Rightarrow> sxm \<Rightarrow> exn + (string \<times> json) list" where
  "token_params ev s =
     (case get_sxmak_token s of
        Inl e \<Rightarrow> Inl e
      | Inr t \<Rightarrow>
          (case get_gup_id ev s of
             Inl e \<Rightarrow> Inl e
           | Inr g \<Rightarrow>
               Inr [(''token'', (case t of None \<Rightarrow> JNull | Some v \<Rightarrow> JStr v)),
                    (''consumer'', JStr ''k2''), (''gupId'', g)]))"

definition get_playlist_variant_url :: "env \<Rightarrow> string \<Rightarrow> sxm \<Rightarrow> (exn + string option) \<times> sxm" where
  "get_playlist_variant_url ev url s =
     (case token_params ev s of
        Inl e \<Rightarrow> (Inl e, s)
      | Inr ps \<Rightarrow>
          (case send ev (HttpGet url ps) s of
             (r, s1) \<Rightarrow>
               if status_code r \<noteq> 200 then (Inr None, s1)
               else
                 (case find (\<lambda>x. endswith (rstrip x) ''.m3u8'') (split_all CHR 0x0A (body r)) of
                    None \<Rightarrow> (Inr None, s1)
                  | Some x \<Rightarrow> (Inr (Some (hd (rsplit1 CHR ''/'' url) @ ''/'' @ rstrip x)), s1))))"

text \<open>\<^verbatim>\<open>for x in v\<close>: the elements of a list, the keys of a dict, the characters of a string.\<close>

fun py_iter :: "json \<Rightarrow> exn + json list" where
  "py_iter (JArr xs) = Inr xs"
| "py_iter (JObj kv) = Inr (map (\<lambda>p. JStr (fst p)) kv)"
| "py_iter (JStr s) = Inr (map (\<lambda>c. JStr [c]) s)"
| "py_iter JNull = Inl TypeError"
| "py_iter (JBool b) = Inl TypeError"
| "py_iter (JNum n) = Inl TypeError"

text \<open>
  The loop of \<^verbatim>\<open>get_playlist_url\<close> over \<^verbatim>\<open>hlsAudioInfos\<close> up to its first \<^verbatim>\<open>LARGE\<close> entry:
  the master playlist URL with the placeholder replaced.
\<close>

fun find_large :: "json list \<Rightarrow> exn + string option" where
  "find_large [] = Inr None"
| "find_large (p # ps) =
     (case subscript p (Key ''size'') of
        Inl e \<Rightarrow> Inl e
      | Inr sz \<Rightarrow>
          if eq_str sz ''LARGE''
          then (case subscript p (Key ''url'') of
                  Inl e \<Rightarrow> Inl e
                | Inr (JStr u) \<Rightarrow> Inr (Some (replace ''%Live_Primary_HLS%'' LIVE_PRIMARY_HLS u))
                | Inr _ \<Rightarrow> Inl AttributeError)
          else find_large ps)"

text \<open>
  Keys of the \<^verbatim>\<open>playlists\<close> dict: lists and dicts are unhashable (\<^verbatim>\<open>TypeError\<close>), and
  \<^verbatim>\<open>True\<close>, \<^verbatim>\<open>False\<close> are the keys \<^verbatim>\<open>1\<close>, \<^verbatim>\<open>0\<close>.
\<close>

fun dict_key :: "json \<Rightarrow> exn + json" where
  "dict_key (JArr xs) = Inl TypeError"
| "dict_key (JObj kv) = Inl TypeError"
| "dict_key (JBool b) = Inr (JNum (if b then 1 else 0))"
| "dict_key j = Inr j"

text \<open>The status block of \<^verbatim>\<open>get_playlist_url\<close>: \<^verbatim>\<open>messages[0].code\<close>, \<open>None\<close> when the
  \<^verbatim>\<open>except (KeyError, IndexError)\<close> returns.\<close>

definition message_code :: "json \<Rightarrow> exn + json option" where
  "message_code data =
     catch [KeyError, IndexError]
       (case lookup_path data [Key ''ModuleListResponse'', Key ''status''] of
          Inl e \<Rightarrow> Inl e
        | Inr status \<Rightarrow>
       (case lookup_path data [Key ''ModuleListResponse'', Key ''messages'', Idx 0, Key ''message''] of
          Inl e \<Rightarrow> Inl e
        | Inr message \<Rightarrow>
       (case lookup_path data [Key ''ModuleListResponse'', Key ''messages'', Idx 0, Key ''code''] of
          Inl e \<Rightarrow> Inl e
        | Inr c \<Rightarrow> Inr (Some c))))
       None"

text \<open>The part of \<^verbatim>\<open>get_playlist_url\<close> under \<^verbatim>\<open># get m3u8 url\<close>.\<close>

definition get_m3u8_url :: "env \<Rightarrow> json \<Rightarrow> json \<Rightarrow> sxm \<Rightarrow> (exn + string option) \<times> sxm" where
  "get_m3u8_url ev data channel_id s =
     (case catch [KeyError, IndexError]
             (case lookup_path data (live_channel_data @ [Key ''hlsAudioInfos'']) of
                Inl e \<Rightarrow> Inl e
              | Inr pl \<Rightarrow> Inr (Some pl))
             None of
        Inl e \<Rightarrow> (Inl e, s)
      | Inr None \<Rightarrow> (Inr None, s)
      | Inr (Some pl) \<Rightarrow>
          (case py_iter pl of
             Inl e \<Rightarrow> (Inl e, s)
           | Inr infos \<Rightarrow>
               (case find_large infos of
                  Inl e \<Rightarrow> (Inl e, s)
                | Inr None \<Rightarrow> (Inr None, s)
                | Inr (Some playlist_url) \<Rightarrow>
                    (case get_playlist_variant_url ev playlist_url s of
                       (Inl e, s1) \<Rightarrow> (Inl e, s1)
                     | (Inr v, s1) \<Rightarrow>
                         (case dict_key channel_id of
                            Inl e \<Rightarrow> (Inl e, s1)
                          | Inr k \<Rightarrow> (Inr v, s1\<lparr>playlists := (playlists s1)(k \<mapsto> v)\<rparr>))))))"

fun get_playlist_url :: "env \<Rightarrow> json \<Rightarrow> json \<Rightarrow> bool \<Rightarrow> nat \<Rightarrow> sxm \<Rightarrow> (exn + string option) \<times> sxm" where
  "get_playlist_url ev guid channel_id use_cache max_attempts s =
     (case get_song_info ev guid channel_id False s of
        (Inl e, s1) \<Rightarrow> (Inl e, s1)
      | (Inr info, s1) \<Rightarrow>
     (case (if use_cache
            then (case dict_key channel_id of
                    Inl e \<Rightarrow> Inl e
                  | Inr k \<Rightarrow> Inr (playlists s1 k))
            else Inr None) of
        Inl e \<Rightarrow> (Inl e, s1)
      | Inr (Some cached) \<Rightarrow> (Inr cached, s1)
      | Inr None \<Rightarrow>
     (case get ev ''tune/now-playing-live'' (np_params guid channel_id) True s1 of
        (Inl e, s2) \<Rightarrow> (Inl e, s2)
      | (Inr data, s2) \<Rightarrow>
          if \<not> truthy data then (Inr None, s2)
          else
            (case message_code data of
               Inl e \<Rightarrow> (Inl e, s2)
             | Inr None \<Rightarrow> (Inr None, s2)
             | Inr (Some code) \<Rightarrow>
                 if eq_int code 201 \<or> eq_int code 208 then
                   (if 0 < max_attempts then
                      (case authenticate ev s2 of
                         (Inl e, s3) \<Rightarrow> (Inl e, s3)
                       | (Inr ok, s3) \<Rightarrow>
                           if ok
                           then get_playlist_url ev guid channel_id use_cache (max_attempts - 1) s3
                           else (Inr None, s3))
                    else (Inr None, s2))
                 else if \<not> eq_int code 100 then (Inr None, s2)
                 else get_m3u8_url ev data channel_id s2))))"


section \<open>Channel catalog\<close>

text \<open>
  \<^verbatim>\<open>get_channels\<close> returns the cached catalog, or downloads it. When the download fails it
  returns the tuple \<^verbatim>\<open>(None, None)\<close>, which the caller iterates like the list of two
  \<^verbatim>\<open>None\<close>s it is modelled as here; when the response has another shape it returns \<^verbatim>\<open>[]\<close>.
\<close>

definition get_channels :: "env \<Rightarrow> sxm \<Rightarrow> (exn + json) \<times> sxm" where
  "get_channels ev s =
     (if \<not> truthy (channels s) then
        (case post ev ''get'' channels_postdata True s of
           (Inl e, s1) \<Rightarrow> (Inl e, s1)
         | (Inr data, s1) \<Rightarrow>
             if \<not> truthy data then (Inr (JArr [JNull, JNull]), s1)
             else
               (case catch [KeyError, IndexError]
                       (case lookup_path data
                               [Key ''ModuleListResponse'', Key ''moduleList'', Key ''modules'',
                                Idx 0, Key ''moduleResponse'', Key ''contentData'',
                                Key ''channelListing'', Key ''channels''] of
                          Inl e \<Rightarrow> Inl e
                        | Inr c \<Rightarrow> Inr (Some c))
                       None of
                  Inl e \<Rightarrow> (Inl e, s1)
                | Inr None \<Rightarrow> (Inr (JArr []), s1)
                | Inr (Some c) \<Rightarrow> (Inr c, s1\<lparr>channels := c\<rparr>)))
      else (Inr (channels s), s))"

text \<open>\<^verbatim>\<open>x.get(k, d)\<close> and \<^verbatim>\<open>v.lower()\<close>: only a dict has \<^verbatim>\<open>get\<close>, only a string \<^verbatim>\<open>lower\<close>.\<close>

definition dict_get :: "json \<Rightarrow> string \<Rightarrow> json \<Rightarrow> exn + json" where
  "dict_get x k d =
     (case x of
        JObj kv \<Rightarrow> Inr (case map_of kv k of None \<Rightarrow> d | Some v \<Rightarrow> v)
      | _ \<Rightarrow> Inl AttributeError)"

definition str_lower :: "json \<Rightarrow> exn + string" where
  "str_lower v = (case v of JStr t \<Rightarrow> Inr (lower t) | _ \<Rightarrow> Inl AttributeError)"

text \<open>The condition of the loop in \<^verbatim>\<open>get_channel\<close>, tested left to right.\<close>

definition channel_matches :: "string \<Rightarrow> json \<Rightarrow> exn + bool" where
  "channel_matches name x =
     (case dict_get x ''name'' (JStr []) of
        Inl e \<Rightarrow> Inl e
      | Inr n \<Rightarrow>
     (case str_lower n of
        Inl e \<Rightarrow> Inl e
      | Inr ln \<Rightarrow>
          if ln = name then Inr True
          else
     (case dict_get x ''channelId'' (JStr []) of
        Inl e \<Rightarrow> Inl e
      | Inr c \<Rightarrow>
     (case str_lower c of
        Inl e \<Rightarrow> Inl e
      | Inr lc \<Rightarrow>
          if lc = name then Inr True
          else
     (case dict_get x ''siriusChannelNumber'' JNull of
        Inl e \<Rightarrow> Inl e
      | Inr num \<Rightarrow> Inr (eq_str num name))))))"

fun match_channel :: "string \<Rightarrow> json list \<Rightarrow> exn + json \<times> json" where
  "match_channel name [] = Inr (JNull, JNull)"
| "match_channel name (x # xs) =
     (case channel_matches name x of
        Inl e \<Rightarrow> Inl e
      | Inr hit \<Rightarrow>
          if hit then
            (case subscript x (Key ''channelGuid'') of
               Inl e \<Rightarrow> Inl e
             | Inr g \<Rightarrow>
                 (case subscript x (Key ''channelId'') of
                    Inl e \<Rightarrow> Inl e
                  | Inr c \<Rightarrow> Inr (g, c)))
          else match_channel name xs)"

definition get_channel :: "env \<Rightarrow> string \<Rightarrow> sxm \<Rightarrow> (exn + json \<times> json) \<times> sxm" where
  "get_channel ev name s =
     (case get_channels ev s of
        (Inl e, s1) \<Rightarrow> (Inl e, s1)
      | (Inr chs, s1) \<Rightarrow>
          (case py_iter chs of
             Inl e \<Rightarrow> (Inl e, s1)
           | Inr xs \<Rightarrow> (match_channel (lower name) xs, s1)))"

section \<open>Playlists, segments and the front-end\<close>

text \<open>
  \<^verbatim>\<open>get_playlist\<close> calls itself on HTTP 403 with no budget, so it need not return: \<open>fuel\<close>
  bounds the depth of these calls and \<open>None\<close> is the result when it runs out (CPython would
  stop with \<^verbatim>\<open>RecursionError\<close> at its recursion limit). \<^verbatim>\<open>session.get(None)\<close> raises
  \<^verbatim>\<open>MissingSchema\<close> before anything is sent.
\<close>

fun get_playlist :: "nat \<Rightarrow> env \<Rightarrow> string \<Rightarrow> bool \<Rightarrow> sxm \<Rightarrow> (exn + string option) option \<times> sxm" where
  "get_playlist 0 ev name use_cache s = (None, s)"
| "get_playlist (Suc fuel) ev name use_cache s =
     (case get_channel ev name s of
        (Inl e, s1) \<Rightarrow> (Some (Inl e), s1)
      | (Inr (guid, channel_id), s1) \<Rightarrow>
          if \<not> truthy guid \<or> \<not> truthy channel_id then (Some (Inr None), s1)
          else
     (case get_playlist_url ev guid channel_id use_cache 5 s1 of
        (Inl e, s2) \<Rightarrow> (Some (Inl e), s2)
      | (Inr url, s2) \<Rightarrow>
     (case token_params ev s2 of
        Inl e \<Rightarrow> (Some (Inl e), s2)
      | Inr ps \<Rightarrow>
     (case url of
        None \<Rightarrow> (Some (Inl MissingSchema), s2)
      | Some u \<Rightarrow>
          (case send ev (HttpGet u ps) s2 of
             (r, s3) \<Rightarrow>
               if status_code r = 403 then get_playlist fuel ev name False s3
               else if status_code r \<noteq> 200 then (Some (Inr None), s3)
               else
                 (case add_base_path u (body r) of
                    Inl e \<Rightarrow> (Some (Inl e), s3)
                  | Inr t \<Rightarrow> (Some (Inr (Some t)), s3)))))))"

fun get_segment :: "nat \<Rightarrow> env \<Rightarrow> string \<Rightarrow> nat \<Rightarrow> sxm \<Rightarrow> (exn + string option) option \<times> sxm" where
  "get_segment fuel ev path max_attempts s =
     (case token_params ev s of
        Inl e \<Rightarrow> (Some (Inl e), s)
      | Inr ps \<Rightarrow>
          (case send ev (HttpGet (LIVE_PRIMARY_HLS @ ''/'' @ path) ps) s of
             (r, s1) \<Rightarrow>
               if status_code r = 403 then
                 (if 0 < max_attempts then
                    (case py_index (split_max CHR ''/'' 2 path) 1 of
                       Inl e \<Rightarrow> (Some (Inl e), s1)
                     | Inr chan \<Rightarrow>
                         (case get_playlist fuel ev chan False s1 of
                            (None, s2) \<Rightarrow> (None, s2)
                          | (Some (Inl e), s2) \<Rightarrow> (Some (Inl e), s2)
                          | (Some (Inr ignored), s2) \<Rightarrow>
                              get_segment fuel ev path (max_attempts - 1) s2))
                  else (Some (Inr None), s1))
               else if status_code r \<noteq> 200 then (Some (Inr None), s1)
               else (Some (Inr (Some (body r))), s1)))"

text \<open>\<^verbatim>\<open>do_GET\<close>: the status and body written to the client (headers left out).\<close>

definition HLS_AES_KEY :: string where
  "HLS_AES_KEY = map char_of [208, 219, 28, 163, 179, 0, 131, 26, 48, 26, 249, 20, 79, 198, 152, 106 :: nat]"

definition reply :: "string option \<Rightarrow> int \<times> string" where
  "reply d = (case d of None \<Rightarrow> (500, []) | Some t \<Rightarrow> if t \<noteq> [] then (200, t) else (500, []))"

definition do_GET :: "nat \<Rightarrow> env \<Rightarrow> string \<Rightarrow> sxm \<Rightarrow> (exn + int \<times> string) option \<times> sxm" where
  "do_GET fuel ev path s =
     (if endswith path ''.m3u8'' then
        (case py_index (rsplit1 CHR ''/'' path) 1 of
           Inl e \<Rightarrow> (Some (Inl e), s)
         | Inr file \<Rightarrow>
             (case get_playlist fuel ev (take (length file - 5) file) True s of
                (None, s1) \<Rightarrow> (None, s1)
              | (Some (Inl e), s1) \<Rightarrow> (Some (Inl e), s1)
              | (Some (Inr d), s1) \<Rightarrow> (Some (Inr (reply d)), s1)))
      else if endswith path ''.aac'' then
        (case get_segment fuel ev (drop 1 path) 5 s of
           (None, s1) \<Rightarrow> (None, s1)
         | (Some (Inl e), s1) \<Rightarrow> (Some (Inl e), s1)
         | (Some (Inr d), s1) \<Rightarrow> (Some (Inr (reply d)), s1))
      else if endswith path ''/key/1'' then (Some (Inr (200, HLS_AES_KEY)), s)
      else (Some (Inr (500, [])), s))"

section \<open>Example upstreams\<close>

text \<open>
  A small upstream for running the model: one channel, \<^verbatim>\<open>purejazz\<close>, whose master playlist
  lists two variants. The now-playing response and the statuses of the variant playlist
  and of the segments are parameters, each a function of the requests sent so far.
\<close>

definition resp :: "int \<Rightarrow> string \<Rightarrow> json option \<Rightarrow> (string \<times> string option) list \<Rightarrow> response" where
  "resp c b j cs = \<lparr>status_code = c, body = b, parsed = j, set_cookies = cs\<rparr>"

definition ok_json :: json where
  "ok_json = JObj [(''ModuleListResponse'', JObj [(''status'', JNum 1)])]"

definition demo_channel :: json where
  "demo_channel =
     JObj [(''channelGuid'', JStr ''guid-1''), (''channelId'', JStr ''purejazz''),
           (''name'', JStr ''Pure Jazz''), (''siriusChannelNumber'', JStr ''67'')]"

definition demo_channels :: json where
  "demo_channels = JArr [demo_channel]"

definition demo_catalog :: json where
  "demo_catalog =
     JObj [(''ModuleListResponse'',
       JObj [(''moduleList'', JObj [(''modules'', JArr [JObj [(''moduleResponse'',
         JObj [(''contentData'',
           JObj [(''channelListing'', JObj [(''channels'', demo_channels)])])])]])])])]"

definition live_json :: "(string \<times> json) list \<Rightarrow> json" where
  "live_json lcd =
     JObj [(''ModuleListResponse'',
       JObj [(''status'', JNum 1),
             (''messages'', JArr [JObj [(''message'', JStr ''ok''), (''code'', JNum 100)]]),
             (''moduleList'', JObj [(''modules'', JArr [JObj [(''moduleResponse'',
               JObj [(''liveChannelData'', JObj lcd)])]])])])]"

definition demo_markers :: "string \<times> json" where
  "demo_markers =
     (''markerLists'',
      JArr [JObj [(''markers'',
                   JArr [JObj [(''episode'', JObj [(''longTitle'', JStr ''Pure Jazz'')])]])],
            JObj [], JObj [],
            JObj [(''markers'', JArr [JObj [(''cut'',
                   JObj [(''title'', JStr ''So What''),
                         (''artists'', JArr [JObj [(''name'', JStr ''Miles Davis'')]])])]])]])"

definition demo_info_list :: "json list" where
  "demo_info_list =
     [JObj [(''size'', JStr ''SMALL''),
            (''url'', JStr ''%Live_Primary_HLS%/AAC_Data/purejazz/small.m3u8'')],
      JObj [(''size'', JStr ''LARGE''),
            (''url'', JStr ''%Live_Primary_HLS%/AAC_Data/purejazz/large.m3u8'')]]"

definition demo_infos :: "string \<times> json" where
  "demo_infos = (''hlsAudioInfos'', JArr demo_info_list)"

definition demo_now_playing :: json where
  "demo_now_playing = live_json [demo_markers, demo_infos]"

definition demo_master :: string where
  "demo_master = LIVE_PRIMARY_HLS @ ''/AAC_Data/purejazz/large.m3u8''"

definition demo_variant :: string where
  "demo_variant = LIVE_PRIMARY_HLS @ ''/AAC_Data/purejazz/v256k.m3u8''"

definition demo_upstream ::
  "(request list \<Rightarrow> response) \<Rightarrow> (request list \<Rightarrow> int) \<Rightarrow> (request list \<Rightarrow> int) \<Rightarrow>
   request list \<Rightarrow> request \<Rightarrow> response" where
  "demo_upstream np variant_status segment_status tr rq =
     (case rq of
        HttpPost u d \<Rightarrow>
          if u = REST_FORMAT ''modify/authentication''
          then resp 200 [] (Some ok_json) [(''SXMAUTHNEW'', Some ''1'')]
          else if u = REST_FORMAT ''resume?OAtrial=false''
          then resp 200 [] (Some ok_json)
                 [(''AWSALB'', Some ''1''), (''JSESSIONID'', Some ''1''),
                  (''SXMAKTOKEN'', Some ''token=tok1,v2''), (''SXMDATA'', Some ''{}'')]
          else resp 200 [] (Some demo_catalog) []
      | HttpGet u ps \<Rightarrow>
          if u = REST_FORMAT ''tune/now-playing-live'' then np tr
          else if u = demo_master
          then resp 200 (''#EXTM3U'' @ [CHR 0x0A] @ ''v256k.m3u8'' @ [CHR 0x0A] @ ''v64k.m3u8'') None []
          else if u = demo_variant
          then resp (variant_status tr)
                 (''#EXTM3U'' @ [CHR 0x0A] @ ''s1.aac'' @ [CHR 0x0A] @ ''s2.aac'') None []
          else resp (segment_status tr) ''AAC'' None [])"

text \<open>The token parameters read from the jar that the resume response above fills.\<close>

definition demo_params :: "(string \<times> json) list" where
  "demo_params = [(''token'', JStr ''tok1''), (''consumer'', JStr ''k2''), (''gupId'', JNull)]"

text \<open>
  The library functions on the two cookie payloads used here, neither of which has a
  percent escape: \<^verbatim>\<open>{}\<close> is the empty object and \<^verbatim>\<open>[1]\<close> a list.
\<close>

definition demo_loads :: "string \<Rightarrow> json option" where
  "demo_loads t =
     (if t = ''{}'' then Some (JObj []) else if t = ''[1]'' then Some (JArr [JNum 1]) else None)"

definition demo_env :: "(request list \<Rightarrow> request \<Rightarrow> response) \<Rightarrow> env" where
  "demo_env up =
     \<lparr>upstream = up, json_loads = demo_loads, unquote = (\<lambda>t. t), aio_send_data = (\<lambda>tr d. None)\<rparr>"

text \<open>Every request answered well; every request refused with HTTP 500.\<close>

definition happy :: env where
  "happy =
     demo_env (demo_upstream (\<lambda>tr. resp 200 [] (Some demo_now_playing) []) (\<lambda>tr. 200) (\<lambda>tr. 200))"

definition refusing :: env where
  "refusing = demo_env (\<lambda>tr rq. resp 500 [] None [])"

text \<open>
  The now-playing lookup refused; a now-playing document without \<^verbatim>\<open>markerLists\<close>; a
  publisher that raises something other than \<^verbatim>\<open>RequestError\<close>; a variant playlist that is
  always answered with HTTP 403.
\<close>

definition np_down :: env where
  "np_down = demo_env (demo_upstream (\<lambda>tr. resp 500 [] None []) (\<lambda>tr. 200) (\<lambda>tr. 200))"

definition np_bare :: env where
  "np_bare =
     demo_env (demo_upstream (\<lambda>tr. resp 200 [] (Some (live_json [demo_infos])) [])
                 (\<lambda>tr. 200) (\<lambda>tr. 200))"

definition sink_down :: env where
  "sink_down = happy\<lparr>aio_send_data := (\<lambda>tr d. Some OtherError)\<rparr>"

definition forbidding :: env where
  "forbidding =
     demo_env (demo_upstream (\<lambda>tr. resp 200 [] (Some demo_now_playing) []) (\<lambda>tr. 403) (\<lambda>tr. 200))"

text \<open>A session of the example upstream after login, resume and the catalog download.\<close>

definition demo_ready :: "sxm \<Rightarrow> bool" where
  "demo_ready s =
     (cookies s ''AWSALB'' = Some ''1'' \<and> cookies s ''JSESSIONID'' = Some ''1''
      \<and> cookies s ''SXMAKTOKEN'' = Some ''token=tok1,v2'' \<and> cookies s ''SXMDATA'' = Some ''{}''
      \<and> channels s = demo_channels)"


text \<open>The number of GET requests for a URL in a trace.\<close>

definition gets_of :: "string \<Rightarrow> request list \<Rightarrow> nat" where
  "gets_of u tr = length (filter (\<lambda>q. case q of HttpGet v ps \<Rightarrow> v = u | HttpPost v d \<Rightarrow> False) tr)"

text \<open>
  The variant playlist answered 403 for its first \<open>k\<close> requests; answered 403 with the
  now-playing lookup refused; answered 500. A session with the catalog loaded and the
  variant URL of \<^verbatim>\<open>purejazz\<close> in the cache. Every segment answered 403.
\<close>

definition forbidden_times :: "nat \<Rightarrow> env" where
  "forbidden_times k =
     demo_env (demo_upstream (\<lambda>tr. resp 200 [] (Some demo_now_playing) [])
                 (\<lambda>tr. if gets_of demo_variant tr < k then 403 else 200) (\<lambda>tr. 200))"

definition stale :: env where
  "stale = demo_env (demo_upstream (\<lambda>tr. resp 500 [] None []) (\<lambda>tr. 403) (\<lambda>tr. 200))"

definition variant_down :: env where
  "variant_down =
     demo_env (demo_upstream (\<lambda>tr. resp 200 [] (Some demo_now_playing) []) (\<lambda>tr. 500) (\<lambda>tr. 200))"

definition cached_session :: sxm where
  "cached_session =
     \<lparr>username = ''u'', password = ''p'',
      cookies = [''SXMAUTHNEW'' \<mapsto> ''1'', ''AWSALB'' \<mapsto> ''1'', ''JSESSIONID'' \<mapsto> ''1'',
                 ''SXMAKTOKEN'' \<mapsto> ''token=tok1,v2'', ''SXMDATA'' \<mapsto> ''{}''],
      playlists = [JStr ''purejazz'' \<mapsto> Some demo_variant],
      channels = demo_channels, trace = []\<rparr>"



section \<open>Splitting and joining\<close>


lemma takeWhile_sep: "c \<notin> set a \<Longrightarrow> takeWhile (\<lambda>x. x \<noteq> c) (a @ c # b) = a"
  by (induction a) auto

lemma dropWhile_sep: "c \<notin> set a \<Longrightarrow> dropWhile (\<lambda>x. x \<noteq> c) (a @ c # b) = c # b"
  by (induction a) auto

lemma split_max_1: "c \<notin> set a \<Longrightarrow> split_max c (Suc 0) (a @ c # b) = [a, b]"
  by (simp add: takeWhile_sep dropWhile_sep)


lemma py_index_0: "py_index (x # xs) 0 = Inr x"
  by (simp add: py_index_def)

lemma py_index_1: "py_index (x # y # xs) 1 = Inr y"
  by (simp add: py_index_def)









section \<open>Running the model\<close>

text \<open>The defining equations, for evaluating a run by rewriting.\<close>

lemmas model_defs =
  get_playlist_url.simps get_channel_def get_channels_def post_def get_def ensure_def
  authenticate_def login_def post_unauth_def send_def decode_def status_is_1_def
  get_song_info_def publish_song_def token_params_def get_sxmak_token_def get_gup_id_def
  cookie_item_def
  get_playlist_variant_url_def get_m3u8_url_def message_code_def channel_matches_def
  dict_get_def str_lower_def catch_def is_logged_in_def is_session_authenticated_def
  apply_cookies_def py_index_def split_all_def rsplit1_def endswith_def rstrip_def isspace_def
  lower_def lower_char_def REST_FORMAT_def LIVE_PRIMARY_HLS_def np_params_def
  live_channel_data_def last_cut_def add_base_path_def init_def

lemmas demo_defs =
  demo_env_def demo_upstream_def resp_def ok_json_def demo_catalog_def demo_channels_def
  demo_channel_def demo_info_list_def demo_now_playing_def live_json_def demo_markers_def demo_infos_def demo_master_def
  demo_variant_def demo_loads_def

section \<open>The playlist rewriter\<close>




section \<open>Cookie accessors\<close>

text \<open>\<^verbatim>\<open>get_sxmak_token\<close> returns for every jar: the token, or \<^verbatim>\<open>None\<close>.\<close>

lemma get_sxmak_token_total: "\<exists>t. get_sxmak_token s = Inr t"
  by (auto simp: get_sxmak_token_def catch_def cookie_item_def py_index_def Let_def
      split: option.splits sum.splits)

text \<open>
  The token is the text after the first \<^verbatim>\<open>=\<close> and before the next \<^verbatim>\<open>,\<close>. The \<^verbatim>\<open>gupId\<close> of
  a cookie that parses to an object is the object's entry, \<^verbatim>\<open>None\<close> when it has none or
  when there is no cookie.
\<close>

lemma get_sxmak_token_value:
  assumes "cookies s ''SXMAKTOKEN'' = Some (a @ ''='' @ b @ '','' @ c)"
    and "CHR ''='' \<notin> set a" and "CHR '','' \<notin> set b"
  shows "get_sxmak_token s = Inr (Some b)"
proof -
  have 1: "split_max CHR ''='' 1 (a @ ''='' @ b @ '','' @ c) = [a, b @ '','' @ c]"
    using split_max_1 [OF assms(2)] by simp
  have 2: "split_max CHR '','' 1 (b @ '','' @ c) = [b, c]"
    using split_max_1 [OF assms(3)] by simp
  show ?thesis
    by (simp only: get_sxmak_token_def cookie_item_def assms(1) option.case sum.case 1 2
        py_index_0 py_index_1 catch_def)
qed

lemma get_gup_id_object:
  assumes "cookies s ''SXMDATA'' = Some v" and "json_loads ev (unquote ev v) = Some (JObj kv)"
  shows "get_gup_id ev s = Inr (case map_of kv ''gupId'' of None \<Rightarrow> JNull | Some g \<Rightarrow> g)"
  using assms by (simp add: get_gup_id_def cookie_item_def catch_def split: option.splits)

lemma get_gup_id_absent: "cookies s ''SXMDATA'' = None \<Longrightarrow> get_gup_id ev s = Inr JNull"
  by (simp add: get_gup_id_def cookie_item_def catch_def)

text \<open>
  Claim C8 at an \<^verbatim>\<open>SXMDATA\<close> cookie whose text \<^verbatim>\<open>[1]\<close> parses to a list, in any session
  and with any JSON parser that reads this text so: subscripting the list with \<^verbatim>\<open>'gupId'\<close>
  raises \<^verbatim>\<open>TypeError\<close>, which \<^verbatim>\<open>except (KeyError, ValueError)\<close> lets through.
\<close>

theorem get_gup_id_not_object:
  "get_gup_id (ev\<lparr>unquote := (\<lambda>t. t), json_loads := (json_loads ev)(''[1]'' \<mapsto> JArr [JNum 1])\<rparr>)
     (s\<lparr>cookies := (cookies s)(''SXMDATA'' \<mapsto> ''[1]'')\<rparr>) = Inl TypeError"
  by (simp add: get_gup_id_def cookie_item_def catch_def)

section \<open>The session manager\<close>




text \<open>
  \<^verbatim>\<open>authenticate\<close> returns success, returns failure, or raises \<^verbatim>\<open>TypeError\<close> (a response
  body that is not an object where one is subscripted); \<^verbatim>\<open>KeyError\<close> is caught.
\<close>

lemma subscript_key_error: "subscript j (Key k) = Inl e \<Longrightarrow> e = KeyError \<or> e = TypeError"
  by (cases j) (auto split: option.splits)

lemma status_is_1_error: "status_is_1 d = Inl e \<Longrightarrow> e = KeyError \<or> e = TypeError"
  by (auto simp: status_is_1_def split: sum.splits dest: subscript_key_error)

lemma login_raises: "login ev s = (Inl e, s') \<Longrightarrow> e = TypeError"
  by (auto simp: login_def catch_def split: prod.splits sum.splits if_splits
      dest: status_is_1_error)

lemma authenticate_raises: "fst (authenticate ev s) = Inl e \<Longrightarrow> e = TypeError"
  by (auto simp: authenticate_def catch_def split: prod.splits sum.splits if_splits
      dest: status_is_1_error login_raises)

section \<open>Channel resolution\<close>

text \<open>
  With the catalog loaded, \<^verbatim>\<open>get_channel\<close> sends nothing and returns what the loop over
  the records finds for the lowercased name: the pair of the first record whose lowercased
  \<^verbatim>\<open>name\<close> or \<^verbatim>\<open>channelId\<close>, or whose \<^verbatim>\<open>siriusChannelNumber\<close>, equals it, and
  \<^verbatim>\<open>(None, None)\<close> when no record matches.
\<close>

lemma channel_matches_record:
  assumes "map_of kv ''name'' = Some (JStr n)" and "map_of kv ''channelId'' = Some (JStr c)"
  shows "channel_matches name (JObj kv) =
           Inr (lower n = name \<or> lower c = name
                \<or> (case map_of kv ''siriusChannelNumber'' of None \<Rightarrow> False
                    | Some num \<Rightarrow> eq_str num name))"
  using assms by (simp add: channel_matches_def dict_get_def str_lower_def split: option.splits)

lemma match_channel_miss:
  "\<forall>x \<in> set xs. channel_matches name x = Inr False \<Longrightarrow> match_channel name xs = Inr (JNull, JNull)"
  by (induction xs) simp_all

lemma match_channel_hit:
  assumes "\<forall>y \<in> set pre. channel_matches name y = Inr False"
    and "channel_matches name x = Inr True"
    and "subscript x (Key ''channelGuid'') = Inr g" and "subscript x (Key ''channelId'') = Inr c"
  shows "match_channel name (pre @ x # rest) = Inr (g, c)"
  using assms by (induction pre) simp_all

lemma get_channel_loaded:
  assumes "channels s = JArr xs" and "xs \<noteq> []"
  shows "get_channel ev name s = (match_channel (lower name) xs, s)"
  using assms by (simp add: get_channel_def get_channels_def)

text \<open>
  Claim C6 where the catalog cannot be fetched: the upstream refuses every request, so
  \<^verbatim>\<open>get_channels\<close> returns \<^verbatim>\<open>(None, None)\<close>, and the loop of \<^verbatim>\<open>get_channel\<close> calls
  \<^verbatim>\<open>None.get\<close>. For every name, \<^verbatim>\<open>get_channel\<close> raises \<^verbatim>\<open>AttributeError\<close>.
\<close>

theorem get_channel_catalog_unavailable:
  "fst (get_channel refusing name (init u p)) = Inl AttributeError"
  by (simp add: refusing_def model_defs demo_defs)

section \<open>The now-playing sink\<close>

text \<open>
  Claim C7 on a cold start, for any positive fuel. With the example upstream the playlist
  is returned. With the same upstream and a publisher that raises, the exception leaves
  \<^verbatim>\<open>get_playlist\<close>; with a now-playing document that has the playlist URLs but no
  \<^verbatim>\<open>markerLists\<close>, \<^verbatim>\<open>get_song_info\<close> raises \<^verbatim>\<open>KeyError\<close> and so does \<^verbatim>\<open>get_playlist\<close>.
\<close>

theorem get_song_info_fails_playlist:
  "fst (get_playlist (Suc n) happy ''purejazz'' True (init ''u'' ''p'')) =
     Some (Inr (Some (''#EXTM3U'' @ [CHR 0x0A] @ ''AAC_Data/purejazz/s1.aac'' @ [CHR 0x0A]
                      @ ''AAC_Data/purejazz/s2.aac'')))
   \<and> fst (get_playlist (Suc n) sink_down ''purejazz'' True (init ''u'' ''p'')) = Some (Inl OtherError)
   \<and> fst (get_playlist (Suc n) np_bare ''purejazz'' True (init ''u'' ''p'')) = Some (Inl KeyError)"
  by (simp add: happy_def sink_down_def np_bare_def model_defs demo_defs)

section \<open>A playlist URL that cannot be obtained\<close>

text \<open>
  Claim C10 on a cold start with the now-playing lookup refused (HTTP 500), for any
  positive fuel: the channel resolves, \<^verbatim>\<open>get_playlist_url\<close> returns \<^verbatim>\<open>None\<close>, and
  \<^verbatim>\<open>session.get(None)\<close> raises. The exception leaves \<^verbatim>\<open>get_playlist\<close> and \<^verbatim>\<open>do_GET\<close>; no
  response is written.
\<close>

theorem get_playlist_url_none:
  "fst (get_playlist (Suc n) np_down ''purejazz'' True (init ''u'' ''p'')) = Some (Inl MissingSchema)
   \<and> fst (do_GET (Suc n) np_down ''/purejazz.m3u8'' (init ''u'' ''p'')) = Some (Inl MissingSchema)"
  by (simp add: do_GET_def np_down_def model_defs demo_defs)

section \<open>The retry bound\<close>

lemma forbidding_fields:
  "upstream forbidding =
     demo_upstream (\<lambda>tr. resp 200 [] (Some demo_now_playing) []) (\<lambda>tr. 403) (\<lambda>tr. 200)"
  "json_loads forbidding = demo_loads"
  "unquote forbidding = (\<lambda>t. t)"
  "aio_send_data forbidding = (\<lambda>tr d. None)"
  by (simp_all add: forbidding_def demo_env_def)

text \<open>
  With the variant playlist always answered 403, each level of \<^verbatim>\<open>get_playlist\<close> sends four
  requests (two now-playing lookups, the master and the variant playlist) and calls the
  next level.
\<close>

lemma forbidding_loop:
  "demo_ready s \<Longrightarrow>
   fst (get_playlist n forbidding ''purejazz'' False s) = None
   \<and> length (trace (snd (get_playlist n forbidding ''purejazz'' False s))) = length (trace s) + 4 * n"
proof (induction n arbitrary: s)
  case 0
  show ?case by simp
next
  case (Suc n)
  show ?case
    using Suc.prems
    by (simp add: Suc.IH demo_ready_def forbidding_fields model_defs demo_defs)
qed

text \<open>
  Claim C2 on a cold start against that upstream: whatever depth \<open>n\<close> the calls of
  \<^verbatim>\<open>get_playlist\<close> are allowed, the request has not returned and at least \<open>4 * n\<close> requests
  have been sent upstream. No constant bounds the number of upstream calls of one request.
\<close>

theorem persistent_403_unbounded:
  "fst (get_playlist n forbidding ''purejazz'' True (init ''u'' ''p'')) = None
   \<and> 4 * n \<le> length (trace (snd (get_playlist n forbidding ''purejazz'' True (init ''u'' ''p''))))"
proof (cases n)
  case 0
  then show ?thesis by simp
next
  case (Suc m)
  show ?thesis
    unfolding Suc
    by (simp add: forbidding_loop demo_ready_def forbidding_fields model_defs demo_defs)
qed

section \<open>HTTP 403 on the variant playlist\<close>

lemma pair_with_snd: "fst p = a \<Longrightarrow> p = (a, snd p)"
  by (simp add: prod_eq_iff)

text \<open>
  Claim C3, as the code has it. Let the channel resolve, \<^verbatim>\<open>get_playlist_url\<close> return the URL
  \<open>u\<close>, and \<open>r\<close> be the response to the GET of \<open>u\<close>. On status 403, \<^verbatim>\<open>get_playlist\<close> is
  the call of \<^verbatim>\<open>get_playlist\<close> with cache use disabled in the state after that GET, whose
  cache is the one before it: no entry is dropped. On any other status but 200 it
  returns \<^verbatim>\<open>None\<close> and the GET of \<open>u\<close> was its last request.
\<close>

theorem get_playlist_variant_status:
  assumes "get_channel ev name s = (Inr (guid, channel_id), s1)"
    and "truthy guid" and "truthy channel_id"
    and "get_playlist_url ev guid channel_id use_cache 5 s1 = (Inr (Some u), s2)"
    and "token_params ev s2 = Inr ps"
    and "send ev (HttpGet u ps) s2 = (r, s3)"
  shows "(status_code r = 403 \<longrightarrow>
           get_playlist (Suc fuel) ev name use_cache s = get_playlist fuel ev name False s3
           \<and> playlists s3 = playlists s2)
       \<and> (status_code r \<noteq> 403 \<and> status_code r \<noteq> 200 \<longrightarrow>
           get_playlist (Suc fuel) ev name use_cache s = (Some (Inr None), s3)
           \<and> trace s3 = trace s2 @ [HttpGet u ps])"
proof -
  from assms(6) have s3: "playlists s3 = playlists s2" "trace s3 = trace s2 @ [HttpGet u ps]"
    by (auto simp: send_def Let_def)
  show ?thesis
    using assms s3 by simp
qed


theorem get_playlist_variant_status_witness:
  "status_code (fst (send (forbidden_times 1)
       (HttpGet demo_variant [(''token'', JStr ''tok1''), (''consumer'', JStr ''k2''), (''gupId'', JNull)])
       (snd (get_playlist_url (forbidden_times 1) (JStr ''guid-1'') (JStr ''purejazz'') True 5 cached_session)))) = 403
   \<and> get_playlist 2 (forbidden_times 1) ''purejazz'' True cached_session =
       get_playlist 1 (forbidden_times 1) ''purejazz'' False
         (snd (send (forbidden_times 1)
            (HttpGet demo_variant [(''token'', JStr ''tok1''), (''consumer'', JStr ''k2''), (''gupId'', JNull)])
            (snd (get_playlist_url (forbidden_times 1) (JStr ''guid-1'') (JStr ''purejazz'') True 5 cached_session))))
   \<and> status_code (fst (send variant_down
       (HttpGet demo_variant [(''token'', JStr ''tok1''), (''consumer'', JStr ''k2''), (''gupId'', JNull)])
       (snd (get_playlist_url variant_down (JStr ''guid-1'') (JStr ''purejazz'') True 5 cached_session)))) = 500
   \<and> fst (get_playlist 1 variant_down ''purejazz'' True cached_session) = Some (Inr None)"
proof -
  let ?ps = "[(''token'', JStr ''tok1''), (''consumer'', JStr ''k2''), (''gupId'', JNull)]"
  let ?g = "JStr ''guid-1''" and ?c = "JStr ''purejazz''"
  have t: "truthy ?g" "truthy ?c" by simp_all
  let ?E = "forbidden_times 1"
  let ?s2 = "snd (get_playlist_url ?E ?g ?c True 5 cached_session)"
  have c1: "get_channel ?E ''purejazz'' cached_session = (Inr (?g, ?c), cached_session)"
    by (simp add: cached_session_def model_defs demo_defs)
  have "fst (get_playlist_url ?E ?g ?c True 5 cached_session) = Inr (Some demo_variant)"
    by code_simp
  then have u1: "get_playlist_url ?E ?g ?c True 5 cached_session = (Inr (Some demo_variant), ?s2)"
    by (rule pair_with_snd)
  have p1: "token_params ?E ?s2 = Inr ?ps"
    by code_simp
  have r1: "status_code (fst (send ?E (HttpGet demo_variant ?ps) ?s2)) = 403"
    by code_simp
  have a: "get_playlist (Suc 1) ?E ''purejazz'' True cached_session =
             get_playlist 1 ?E ''purejazz'' False (snd (send ?E (HttpGet demo_variant ?ps) ?s2))"
    using get_playlist_variant_status [OF c1 t u1 p1 prod.collapse [symmetric], of 1] r1 by blast
  let ?D = "variant_down"
  let ?d2 = "snd (get_playlist_url ?D ?g ?c True 5 cached_session)"
  have c2: "get_channel ?D ''purejazz'' cached_session = (Inr (?g, ?c), cached_session)"
    by (simp add: cached_session_def model_defs demo_defs)
  have "fst (get_playlist_url ?D ?g ?c True 5 cached_session) = Inr (Some demo_variant)"
    by code_simp
  then have u2: "get_playlist_url ?D ?g ?c True 5 cached_session = (Inr (Some demo_variant), ?d2)"
    by (rule pair_with_snd)
  have p2: "token_params ?D ?d2 = Inr ?ps"
    by code_simp
  have r2: "status_code (fst (send ?D (HttpGet demo_variant ?ps) ?d2)) = 500"
    by code_simp
  have b: "get_playlist (Suc 0) ?D ''purejazz'' True cached_session =
             (Some (Inr None), snd (send ?D (HttpGet demo_variant ?ps) ?d2))"
    using get_playlist_variant_status [OF c2 t u2 p2 prod.collapse [symmetric], of 0] r2 by simp
  from a b r1 r2 show ?thesis by (simp add: numeral_2_eq_2)
qed

text \<open>
  The claim as stated fails twice. With the variant playlist answered 403 two times and
  then 200, one request fetches it three times: the call made on 403 makes that call
  again. And with the variant URL cached, the variant answered 403 and the now-playing
  lookup refused, the request ends (in \<^verbatim>\<open>MissingSchema\<close>) with the entry still in the cache.
\<close>

theorem get_playlist_counterexample:
  "fst (get_playlist 3 (forbidden_times 2) ''purejazz'' True cached_session) =
     Some (Inr (Some (''#EXTM3U'' @ [CHR 0x0A] @ ''AAC_Data/purejazz/s1.aac'' @ [CHR 0x0A]
                      @ ''AAC_Data/purejazz/s2.aac'')))
   \<and> gets_of demo_variant (trace (snd (get_playlist 3 (forbidden_times 2) ''purejazz'' True cached_session))) = 3
   \<and> fst (get_playlist 2 stale ''purejazz'' True cached_session) = Some (Inl MissingSchema)
   \<and> playlists (snd (get_playlist 2 stale ''purejazz'' True cached_session)) (JStr ''purejazz'') =
       Some (Some demo_variant)"
  by code_simp

section \<open>HTTP 403 on a segment\<close>





section \<open>The requests of a cold start\<close>

lemma token_params_cookies:
  assumes "cookies s = cookies s'"
  shows "token_params ev s = token_params ev s'"
proof -
  have a: "get_sxmak_token s = get_sxmak_token s'"
    using assms by (simp add: get_sxmak_token_def cookie_item_def)
  have b: "get_gup_id ev s = get_gup_id ev s'"
    using assms by (simp add: get_gup_id_def cookie_item_def)
  show ?thesis by (simp only: token_params_def a b)
qed

lemma eq_int_100: "eq_int c 100 \<Longrightarrow> \<not> eq_int c 201 \<and> \<not> eq_int c 208"
  by (cases c) (auto split: if_splits)

text \<open>
  Claim C9, as the code has it. A session with an empty jar is asked for the playlist of
  \<open>name\<close>. Let \<open>r1\<close>, ..., \<open>r7\<close> be the upstream's responses to the requests below, each
  given the requests before it, and \<open>j1\<close>, ..., \<open>j6\<close> the jar after each. When login and
  resume succeed, the catalog resolves \<open>name\<close> to \<open>(guid, cid)\<close>, the session stays
  authenticated, the first now-playing response is published, the second has code 100
  and a \<^verbatim>\<open>LARGE\<close> entry for \<open>master\<close>, the master playlist lists the variant \<open>x\<close>, and the
  variant playlist is not answered 403, then the requests sent are exactly: the login
  POST, the resume POST, the channel-listing POST, two now-playing GETs (one by
  \<^verbatim>\<open>get_song_info\<close>, one by \<^verbatim>\<open>get_playlist_url\<close>), the master GET and the variant GET.
\<close>

theorem cold_start_requests:
  fixes ev :: env and u p name master x :: string and guid cid :: json
    and ps6 ps7 :: "(string \<times> json) list"
  defines "q1 \<equiv> HttpPost (REST_FORMAT ''modify/authentication'') (login_postdata u p)"
    and "q2 \<equiv> HttpPost (REST_FORMAT ''resume?OAtrial=false'') resume_postdata"
    and "q3 \<equiv> HttpPost (REST_FORMAT ''get'') channels_postdata"
    and "q4 \<equiv> HttpGet (REST_FORMAT ''tune/now-playing-live'') (np_params guid cid)"
  defines "r1 \<equiv> upstream ev [] q1"
    and "r2 \<equiv> upstream ev [q1] q2"
    and "r3 \<equiv> upstream ev [q1, q2] q3"
    and "r4 \<equiv> upstream ev [q1, q2, q3] q4"
    and "r5 \<equiv> upstream ev [q1, q2, q3, q4] q4"
  defines "j1 \<equiv> apply_cookies (set_cookies r1) Map.empty"
  defines "j2 \<equiv> apply_cookies (set_cookies r2) j1"
  defines "j3 \<equiv> apply_cookies (set_cookies r3) j2"
  defines "j4 \<equiv> apply_cookies (set_cookies r4) j3"
  defines "j5 \<equiv> apply_cookies (set_cookies r5) j4"
  defines "q6 \<equiv> HttpGet master ps6"
  defines "r6 \<equiv> upstream ev [q1, q2, q3, q4, q4] q6"
  defines "j6 \<equiv> apply_cookies (set_cookies r6) j5"
  defines "variant \<equiv> hd (rsplit1 CHR ''/'' master) @ ''/'' @ rstrip x"
  defines "q7 \<equiv> HttpGet variant ps7"
  defines "r7 \<equiv> upstream ev [q1, q2, q3, q4, q4, q6] q7"
  assumes login: "truthy (decode r1)" "status_is_1 (decode r1) = Inr True" "j1 ''SXMAUTHNEW'' \<noteq> None"
    and resume: "truthy (decode r2)" "status_is_1 (decode r2) = Inr True"
      "j2 ''AWSALB'' \<noteq> None" "j2 ''JSESSIONID'' \<noteq> None"
    and catalog: "truthy (decode r3)"
      "lookup_path (decode r3)
         [Key ''ModuleListResponse'', Key ''moduleList'', Key ''modules'', Idx 0,
          Key ''moduleResponse'', Key ''contentData'', Key ''channelListing'', Key ''channels''] = Inr chs"
      "py_iter chs = Inr xs" "match_channel (lower name) xs = Inr (guid, cid)"
      "truthy guid" "truthy cid"
      "j3 ''AWSALB'' \<noteq> None" "j3 ''JSESSIONID'' \<noteq> None"
    and song: "truthy (decode r4)" "publish_song ev [q1, q2, q3, q4] (decode r4) = None"
      "j4 ''AWSALB'' \<noteq> None" "j4 ''JSESSIONID'' \<noteq> None"
    and now_playing: "truthy (decode r5)" "message_code (decode r5) = Inr (Some code)" "eq_int code 100"
      "lookup_path (decode r5) (live_channel_data @ [Key ''hlsAudioInfos'']) = Inr pl"
      "py_iter pl = Inr infos" "find_large infos = Inr (Some master)" "dict_key cid = Inr k"
      "token_params ev ((init u p)\<lparr>cookies := j5\<rparr>) = Inr ps6"
    and master: "status_code r6 = 200"
      "find (\<lambda>l. endswith (rstrip l) ''.m3u8'') (split_all CHR 0x0A (body r6)) = Some x"
      "token_params ev ((init u p)\<lparr>cookies := j6\<rparr>) = Inr ps7"
    and variant: "status_code r7 \<noteq> 403"
  shows "trace (snd (get_playlist (Suc fuel) ev name True (init u p))) = [q1, q2, q3, q4, q4, q6, q7]"
proof -
  let ?S0 = "\<lparr>username = u, password = p, cookies = Map.empty, playlists = Map.empty,
              channels = JNull, trace = []\<rparr>"
  let ?S1 = "\<lparr>username = u, password = p, cookies = j1, playlists = Map.empty,
              channels = JNull, trace = [q1]\<rparr>"
  let ?S2 = "\<lparr>username = u, password = p, cookies = j2, playlists = Map.empty,
              channels = JNull, trace = [q1, q2]\<rparr>"
  let ?S3 = "\<lparr>username = u, password = p, cookies = j3, playlists = Map.empty,
              channels = chs, trace = [q1, q2, q3]\<rparr>"
  let ?S4 = "\<lparr>username = u, password = p, cookies = j4, playlists = Map.empty,
              channels = chs, trace = [q1, q2, q3, q4]\<rparr>"
  let ?S5 = "\<lparr>username = u, password = p, cookies = j5, playlists = Map.empty,
              channels = chs, trace = [q1, q2, q3, q4, q4]\<rparr>"
  let ?S6 = "\<lparr>username = u, password = p, cookies = j6, playlists = Map.empty,
              channels = chs, trace = [q1, q2, q3, q4, q4, q6]\<rparr>"
  let ?S6p = "\<lparr>username = u, password = p, cookies = j6, playlists = [k \<mapsto> Some variant],
               channels = chs, trace = [q1, q2, q3, q4, q4, q6]\<rparr>"
  note folds = q1_def [symmetric] q2_def [symmetric] q3_def [symmetric] q4_def [symmetric]
    q6_def [symmetric] q7_def [symmetric] r1_def [symmetric] r2_def [symmetric]
    r3_def [symmetric] r4_def [symmetric] r5_def [symmetric] r6_def [symmetric]
    r7_def [symmetric] j1_def [symmetric] j2_def [symmetric] j3_def [symmetric]
    j4_def [symmetric] j5_def [symmetric] j6_def [symmetric]
  have L1: "login ev ?S0 = (Inr True, ?S1)"
    using login
    by (simp add: login_def post_unauth_def send_def catch_def is_logged_in_def folds)
  have L2: "authenticate ev ?S0 = (Inr True, ?S2)"
    using resume
    by (simp add: authenticate_def L1 is_logged_in_def post_unauth_def send_def catch_def
        is_session_authenticated_def folds)
  have L3: "post ev ''get'' channels_postdata True ?S0 =
              (Inr (decode r3),
               \<lparr>username = u, password = p, cookies = j3, playlists = Map.empty,
                  channels = JNull, trace = [q1, q2, q3]\<rparr>)"
    by (simp add: post_def ensure_def L2 post_unauth_def send_def is_session_authenticated_def
        folds)
  have L4: "get_channels ev ?S0 = (Inr chs, ?S3)"
    using catalog(1,2) by (simp add: get_channels_def L3 catch_def)
  have L5: "get_channel ev name ?S0 = (Inr (guid, cid), ?S3)"
    using catalog(3,4) by (simp add: get_channel_def L4)
  have L6: "get_song_info ev guid cid False ?S3 = (Inr JNull, ?S4)"
    using catalog(7,8) song(1,2)
    by (simp add: get_song_info_def get_def ensure_def is_session_authenticated_def send_def
        folds)
  have L7: "get ev ''tune/now-playing-live'' (np_params guid cid) True ?S4 = (Inr (decode r5), ?S5)"
    using song(3,4)
    by (simp add: get_def ensure_def is_session_authenticated_def send_def folds)
  have t6: "token_params ev ?S5 = Inr ps6"
    using now_playing(8) token_params_cookies [of ?S5 "(init u p)\<lparr>cookies := j5\<rparr>" ev]
    by simp
  have L8: "get_playlist_variant_url ev master ?S5 = (Inr (Some variant), ?S6)"
    using master(1,2)
    by (simp add: get_playlist_variant_url_def t6 send_def folds variant_def)
  have L9: "get_m3u8_url ev (decode r5) cid ?S5 = (Inr (Some variant), ?S6p)"
    using now_playing(4,5,6,7)
    by (simp add: get_m3u8_url_def catch_def L8)
  have L10: "get_playlist_url ev guid cid True 5 ?S3 = (Inr (Some variant), ?S6p)"
    using now_playing(1,2,3,7) eq_int_100 [OF now_playing(3)]
    by (simp add: L6 L7 L9)
  have t7: "token_params ev ?S6p = Inr ps7"
    using master(3) token_params_cookies [of ?S6p "(init u p)\<lparr>cookies := j6\<rparr>" ev]
    by simp
  show ?thesis
    using catalog(5,6) variant
    by (simp add: init_def L5 L10 t7 send_def folds del: get_playlist_url.simps split: sum.splits)
qed

theorem cold_start_requests_witness:
  "trace (snd (get_playlist (Suc 0) happy ''purejazz'' True (init ''u'' ''p''))) =
     [HttpPost (REST_FORMAT ''modify/authentication'') (login_postdata ''u'' ''p''),
      HttpPost (REST_FORMAT ''resume?OAtrial=false'') resume_postdata,
      HttpPost (REST_FORMAT ''get'') channels_postdata,
      HttpGet (REST_FORMAT ''tune/now-playing-live'') (np_params (JStr ''guid-1'') (JStr ''purejazz'')),
      HttpGet (REST_FORMAT ''tune/now-playing-live'') (np_params (JStr ''guid-1'') (JStr ''purejazz'')),
      HttpGet demo_master demo_params,
      HttpGet (hd (rsplit1 CHR ''/'' demo_master) @ ''/'' @ rstrip ''v256k.m3u8'') demo_params]"
  by (rule cold_start_requests [where chs = demo_channels and xs = "[demo_channel]"
        and code = "JNum 100" and pl = "JArr demo_info_list" and infos = demo_info_list
        and k = "JStr ''purejazz''"]; code_simp)

text \<open>
  The claim as stated fails on the example upstream: the request for
  \<^verbatim>\<open>/purejazz.m3u8\<close> is answered 200 after two now-playing GETs, not one.
\<close>

theorem cold_start_counterexample:
  "fst (do_GET 1 happy ''/purejazz.m3u8'' (init ''u'' ''p'')) =
     Some (Inr (200, ''#EXTM3U'' @ [CHR 0x0A] @ ''AAC_Data/purejazz/s1.aac'' @ [CHR 0x0A]
                     @ ''AAC_Data/purejazz/s2.aac''))
   \<and> gets_of (REST_FORMAT ''tune/now-playing-live'')
         (trace (snd (do_GET 1 happy ''/purejazz.m3u8'' (init ''u'' ''p'')))) = 2"
  by code_simp

end
